theory Spec2Isabelle
  imports Complex_Main "HOL-Library.Stream"
begin

section \<open>Data model (types.ts, Zone.ts, City.ts)\<close>

text \<open>
  JavaScript numbers that hold quantities (happiness, pollution, capacity, demand) are
  modelled as \<open>real\<close>; grid coordinates are \<open>int\<close>, grid dimensions \<open>nat\<close>.
  \<open>Math.random()\<close> is an explicit argument: every function that draws takes the drawn
  value (a real in the half-open unit interval) as a parameter.
\<close>

datatype ZoneType = RESIDENTIAL | COMMERCIAL | INDUSTRIAL

datatype InfrastructureType = InfraRoad | InfraPower | InfraWater

datatype BuildingSize = SMALL | MEDIUM | LARGE | BLOCK_2X2

datatype BuildingType =
    HOUSE | APARTMENT | VILLA | SHOP | OFFICE | MALL | FACTORY | WAREHOUSE
  | POWERPLANT | HOSPITAL | SCHOOL | POLICE | PARK
  | RESIDENTIAL_BLOCK | COMMERCIAL_BLOCK | INDUSTRIAL_BLOCK

text \<open>
  Building ids are strings built from templates: \<open>building_<time>_<draw>\<close> for a grown
  building (the clock is not modelled, the draw is), \<open>block_building_<time>_<x>_<y>\<close> for
  a block building, or any string given by the caller.
\<close>

datatype BuildingId = GrownId real | BlockId int int | GivenId string

text \<open>The fields of a building are those of the \<open>Building\<close> interface of types.ts.\<close>

record Building =
  b_id :: BuildingId
  b_x :: int
  b_y :: int
  b_type :: ZoneType
  buildingType :: "BuildingType option"
  b_size :: BuildingSize
  population :: real
  jobs :: real
  b_pollution :: real
  b_happiness :: real
  isBlock :: bool

text \<open>Zone.ts, class \<open>Zone\<close>: the private field \<open>type\<close> is declared \<open>ZoneType\<close> (never null).\<close>

record Zone =
  z_x :: int
  z_y :: int
  z_type :: ZoneType
  infrastructure :: "InfrastructureType list"
  building :: "Building option"
  happiness :: real
  pollution :: real
  blockZoneId :: "string option"
  blockZoneX :: "int option"
  blockZoneY :: "int option"

text \<open>Constructor: \<open>this.type = type || ZoneType.RESIDENTIAL\<close>.\<close>

definition Zone_new :: "int \<Rightarrow> int \<Rightarrow> ZoneType option \<Rightarrow> Zone" where
  "Zone_new x y t =
     \<lparr> z_x = x, z_y = y,
       z_type = (case t of None \<Rightarrow> RESIDENTIAL | Some t' \<Rightarrow> t'),
       infrastructure = [], building = None, happiness = 50, pollution = 0,
       blockZoneId = None, blockZoneX = None, blockZoneY = None \<rparr>"

text \<open>\<open>getType(): ZoneType | null\<close> returns the field.\<close>

definition Zone_getType :: "Zone \<Rightarrow> ZoneType option" where
  "Zone_getType z = Some (z_type z)"

definition Zone_setType :: "Zone \<Rightarrow> ZoneType option \<Rightarrow> Zone" where
  "Zone_setType z t = z\<lparr>z_type := (case t of None \<Rightarrow> RESIDENTIAL | Some t' \<Rightarrow> t')\<rparr>"

definition Zone_setHappiness :: "Zone \<Rightarrow> real \<Rightarrow> Zone" where
  "Zone_setHappiness z h = z\<lparr>happiness := max 0 (min 100 h)\<rparr>"

definition Zone_setPollution :: "Zone \<Rightarrow> real \<Rightarrow> Zone" where
  "Zone_setPollution z p = z\<lparr>pollution := max 0 (min 100 p)\<rparr>"

text \<open>\<open>addInfrastructure\<close> returns its boolean result together with the updated zone.\<close>

definition Zone_addInfrastructure :: "Zone \<Rightarrow> InfrastructureType \<Rightarrow> bool \<times> Zone" where
  "Zone_addInfrastructure z t =
     (if t \<notin> set (infrastructure z)
      then (True, z\<lparr>infrastructure := infrastructure z @ [t]\<rparr>)
      else (False, z))"

definition Zone_removeInfrastructure :: "Zone \<Rightarrow> InfrastructureType \<Rightarrow> Zone" where
  "Zone_removeInfrastructure z t = z\<lparr>infrastructure := filter (\<lambda>i. i \<noteq> t) (infrastructure z)\<rparr>"

definition Zone_hasInfrastructure :: "Zone \<Rightarrow> InfrastructureType \<Rightarrow> bool" where
  "Zone_hasInfrastructure z t = (t \<in> set (infrastructure z))"

text \<open>utils.ts \<open>hasAllBasicInfrastructure\<close>, applied to \<open>this.toZoneCell()\<close>.\<close>

definition Zone_hasAllBasicInfrastructure :: "Zone \<Rightarrow> bool" where
  "Zone_hasAllBasicInfrastructure z =
     (InfraRoad \<in> set (infrastructure z) \<and>
      InfraPower \<in> set (infrastructure z) \<and>
      InfraWater \<in> set (infrastructure z))"

subsection \<open>City\<close>

record City =
  zones :: "Zone list list"
  gridWidth :: nat
  gridHeight :: nat

definition initializeZones :: "nat \<Rightarrow> nat \<Rightarrow> Zone list list" where
  "initializeZones w h =
     map (\<lambda>y. map (\<lambda>x. Zone_new (int x) (int y) None) [0..<w]) [0..<h]"

definition City_new :: "nat \<Rightarrow> nat \<Rightarrow> City" where
  "City_new w h = \<lparr> zones = initializeZones w h, gridWidth = w, gridHeight = h \<rparr>"

text \<open>\<open>this.zones[y][x]\<close>, read and written only after the bounds check of the caller.\<close>

definition zoneAt :: "City \<Rightarrow> int \<Rightarrow> int \<Rightarrow> Zone" where
  "zoneAt c x y = zones c ! nat y ! nat x"

definition setZoneAt :: "City \<Rightarrow> int \<Rightarrow> int \<Rightarrow> Zone \<Rightarrow> City" where
  "setZoneAt c x y z = c\<lparr>zones := (zones c)[nat y := (zones c ! nat y)[nat x := z]]\<rparr>"

definition City_wf :: "City \<Rightarrow> bool" where
  "City_wf c = (length (zones c) = gridHeight c \<and>
                list_all (\<lambda>row. length row = gridWidth c) (zones c))"

definition City_addZone :: "City \<Rightarrow> int \<Rightarrow> int \<Rightarrow> ZoneType \<Rightarrow> bool \<times> City" where
  "City_addZone c x y zoneType =
     (if x < 0 \<or> x \<ge> int (gridWidth c) \<or> y < 0 \<or> y \<ge> int (gridHeight c) then (False, c)
      else let zone = zoneAt c x y in
        if Zone_getType zone \<noteq> None then (False, c)
        else (True, setZoneAt c x y (Zone_setType zone (Some zoneType))))"

definition City_addInfrastructure ::
  "City \<Rightarrow> int \<Rightarrow> int \<Rightarrow> InfrastructureType \<Rightarrow> bool \<times> City" where
  "City_addInfrastructure c x y t =
     (if x < 0 \<or> x \<ge> int (gridWidth c) \<or> y < 0 \<or> y \<ge> int (gridHeight c) then (False, c)
      else let (r, zone') = Zone_addInfrastructure (zoneAt c x y) t
           in (r, setZoneAt c x y zone'))"

definition City_getZone :: "City \<Rightarrow> int \<Rightarrow> int \<Rightarrow> Zone option" where
  "City_getZone c x y =
     (if x < 0 \<or> x \<ge> int (gridWidth c) \<or> y < 0 \<or> y \<ge> int (gridHeight c) then None
      else Some (zoneAt c x y))"

subsection \<open>Building accessors\<close>

text \<open>
  Modelled from the spec: the class \<open>Building\<close> (modules/Building.ts) is not among the
  sources; only its callers are. Its getters and setters read and write the fields of the
  record above.
\<close>

definition Building_setHappiness :: "Building \<Rightarrow> real \<Rightarrow> Building" where
  "Building_setHappiness b h = b\<lparr>b_happiness := h\<rparr>"

text \<open>
  Modelled from the spec: the constructor and \<open>upgrade\<close> of \<open>Building\<close>. The spec gives
  a building "derived stats" that depend on its type and size and are recomputed on
  upgrade, without their values: the table is a parameter. An upgrade advances the size
  one step (small, medium, large) and reports success; a large or block building is left
  as it is ("size class is monotonically non-decreasing under upgrade and block-2x2
  buildings never upgrade").
\<close>

record BuildingStats =
  st_population :: real
  st_jobs :: real
  st_pollution :: real
  st_happiness :: real

type_synonym StatsTable = "ZoneType \<Rightarrow> BuildingSize \<Rightarrow> BuildingStats"

definition Building_new ::
  "StatsTable \<Rightarrow> BuildingId \<Rightarrow> int \<Rightarrow> int \<Rightarrow> ZoneType \<Rightarrow> BuildingSize \<Rightarrow>
   BuildingType option \<Rightarrow> bool \<Rightarrow> Building" where
  "Building_new stats bid x y t sz bt blk =
     \<lparr> b_id = bid, b_x = x, b_y = y, b_type = t, buildingType = bt, b_size = sz,
       population = st_population (stats t sz), jobs = st_jobs (stats t sz),
       b_pollution = st_pollution (stats t sz), b_happiness = st_happiness (stats t sz),
       isBlock = blk \<rparr>"

definition resize :: "StatsTable \<Rightarrow> Building \<Rightarrow> BuildingSize \<Rightarrow> Building" where
  "resize stats b sz =
     b\<lparr> b_size := sz,
       population := st_population (stats (b_type b) sz),
       jobs := st_jobs (stats (b_type b) sz),
       b_pollution := st_pollution (stats (b_type b) sz) \<rparr>"

definition Building_upgrade :: "StatsTable \<Rightarrow> Building \<Rightarrow> bool \<times> Building" where
  "Building_upgrade stats b =
     (case b_size b of
        SMALL \<Rightarrow> (True, resize stats b MEDIUM)
      | MEDIUM \<Rightarrow> (True, resize stats b LARGE)
      | LARGE \<Rightarrow> (False, b)
      | BLOCK_2X2 \<Rightarrow> (False, b))"

section \<open>WeatherManager.ts\<close>

datatype WeatherType = SUNNY | CLOUDY | RAINY | STORMY | FOGGY

record WeatherEffect =
  we_type :: WeatherType
  duration :: int
  happinessModifier :: real
  pollutionModifier :: real
  growthModifier :: real

fun WEATHER_EFFECTS :: "WeatherType \<Rightarrow> WeatherEffect" where
  "WEATHER_EFFECTS SUNNY = \<lparr> we_type = SUNNY, duration = 5, happinessModifier = 5,
      pollutionModifier = -2, growthModifier = 12/10 \<rparr>"
| "WEATHER_EFFECTS CLOUDY = \<lparr> we_type = CLOUDY, duration = 3, happinessModifier = 0,
      pollutionModifier = 0, growthModifier = 1 \<rparr>"
| "WEATHER_EFFECTS RAINY = \<lparr> we_type = RAINY, duration = 4, happinessModifier = -3,
      pollutionModifier = -5, growthModifier = 8/10 \<rparr>"
| "WEATHER_EFFECTS STORMY = \<lparr> we_type = STORMY, duration = 2, happinessModifier = -8,
      pollutionModifier = -10, growthModifier = 5/10 \<rparr>"
| "WEATHER_EFFECTS FOGGY = \<lparr> we_type = FOGGY, duration = 3, happinessModifier = -2,
      pollutionModifier = 3, growthModifier = 9/10 \<rparr>"

text \<open>The static fields of \<open>WeatherManager\<close>; \<open>weatherChangeChance\<close> is the constant 0.3.\<close>

record WeatherState =
  currentWeather :: WeatherType
  weatherDuration :: int

definition initialWeather :: WeatherState where
  "initialWeather = \<lparr> currentWeather = SUNNY, weatherDuration = 5 \<rparr>"

definition getCurrentWeatherEffect :: "WeatherState \<Rightarrow> WeatherEffect" where
  "getCurrentWeatherEffect ws = WEATHER_EFFECTS (currentWeather ws)"




definition canGrowInCurrentWeather :: "WeatherState \<Rightarrow> real stream \<Rightarrow> bool \<times> real stream" where
  "canGrowInCurrentWeather ws rs =
     (shd rs < growthModifier (getCurrentWeatherEffect ws), stl rs)"

text \<open>
  Zone.ts \<open>updatePollution(buildingPollution, nearbyIndustrialPollution)\<close>: the first
  parameter is not read; the building's own pollution output is.
\<close>

definition Zone_updatePollution :: "Zone \<Rightarrow> real \<Rightarrow> real \<Rightarrow> Zone" where
  "Zone_updatePollution z buildingPollution nearbyIndustrialPollution =
     (let p0 = (case building z of None \<Rightarrow> 0 | Some b \<Rightarrow> 0 + b_pollution b);
          p1 = p0 + nearbyIndustrialPollution
      in z\<lparr>pollution := min 100 p1\<rparr>)"

definition applyWeatherHappinessEffect :: "WeatherState \<Rightarrow> Building \<Rightarrow> Building" where
  "applyWeatherHappinessEffect ws b =
     (let effect = getCurrentWeatherEffect ws;
          currentHappiness = b_happiness b;
          newHappiness = max 0 (min 100 (currentHappiness + happinessModifier effect))
      in Building_setHappiness b newHappiness)"

definition applyWeatherPollutionEffect :: "WeatherState \<Rightarrow> Zone \<Rightarrow> Zone" where
  "applyWeatherPollutionEffect ws z =
     (let effect = getCurrentWeatherEffect ws;
          currentPollution = pollution z;
          newPollution = max 0 (min 100 (currentPollution + pollutionModifier effect))
      in Zone_updatePollution z 0 (newPollution - currentPollution))"

text \<open>\<open>applyWeatherEffects\<close>: each iteration touches one zone and its own building only.\<close>

definition applyWeatherEffectsZone :: "WeatherState \<Rightarrow> Zone \<Rightarrow> Zone" where
  "applyWeatherEffectsZone ws z =
     (let z1 = applyWeatherPollutionEffect ws z
      in case building z1 of
           None \<Rightarrow> z1
         | Some b \<Rightarrow> z1\<lparr>building := Some (applyWeatherHappinessEffect ws b)\<rparr>)"

definition applyWeatherEffects :: "WeatherState \<Rightarrow> Zone list list \<Rightarrow> Zone list list" where
  "applyWeatherEffects ws zs = map (map (applyWeatherEffectsZone ws)) zs"


section \<open>Growth (Zone.ts, City.ts)\<close>

text \<open>
  Every function that calls \<open>Math.random()\<close> takes the stream of future draws and returns
  the rest of it, so the number and the order of the draws are those of the source.
\<close>

definition Zone_shouldCreateBuilding :: "Zone \<Rightarrow> real stream \<Rightarrow> bool \<times> real stream" where
  "Zone_shouldCreateBuilding z rs =
     (if \<not> Zone_hasAllBasicInfrastructure z then (False, rs)
      else let baseChance = 3/10;
               infrastructureBonus = real (length (infrastructure z)) * (1/10);
               happinessBonus = happiness z / 200
           in (shd rs < baseChance + infrastructureBonus + happinessBonus, stl rs))"

text \<open>\<open>createBuilding\<close> calls \<open>new Building(buildingId, this.x, this.y, this.type)\<close>.\<close>

definition Zone_createBuilding ::
  "StatsTable \<Rightarrow> Zone \<Rightarrow> BuildingId \<Rightarrow> real stream \<Rightarrow> Building option \<times> Zone \<times> real stream" where
  "Zone_createBuilding stats z bid rs =
     (if building z \<noteq> None then (None, z, rs)
      else let (ok, rs1) = Zone_shouldCreateBuilding z rs
           in if ok
              then let b = Building_new stats bid (z_x z) (z_y z) (z_type z) SMALL None False
                   in (Some b, z\<lparr>building := Some b\<rparr>, rs1)
              else (None, z, rs1))"

definition Zone_shouldUpgradeBuilding :: "Zone \<Rightarrow> real stream \<Rightarrow> bool \<times> real stream" where
  "Zone_shouldUpgradeBuilding z rs =
     (case building z of
        None \<Rightarrow> (False, rs)
      | Some b \<Rightarrow>
          if b_size b = LARGE then (False, rs)
          else let hasGoodInfrastructure = Zone_hasAllBasicInfrastructure z;
                   hasGoodHappiness = happiness z > 60
               in if hasGoodInfrastructure \<and> hasGoodHappiness
                  then (shd rs < 2/10, stl rs)
                  else (False, rs))"

definition Zone_upgradeBuilding ::
  "StatsTable \<Rightarrow> Zone \<Rightarrow> real stream \<Rightarrow> bool \<times> Zone \<times> real stream" where
  "Zone_upgradeBuilding stats z rs =
     (case building z of
        None \<Rightarrow> (False, z, rs)
      | Some b \<Rightarrow>
          let (ok, rs1) = Zone_shouldUpgradeBuilding z rs
          in if ok
             then let (r, b') = Building_upgrade stats b
                  in (r, z\<lparr>building := Some b'\<rparr>, rs1)
             else (False, z, rs1))"

definition isBlockZone :: "Zone \<Rightarrow> bool" where
  "isBlockZone z = (blockZoneId z \<noteq> None)"

definition canZoneGrow :: "WeatherState \<Rightarrow> Zone \<Rightarrow> real stream \<Rightarrow> bool \<times> real stream" where
  "canZoneGrow ws z rs =
     (let hasInfrastructure = length (infrastructure z) > 0;
          (weatherAllowsGrowth, rs1) = canGrowInCurrentWeather ws rs;
          happinessThreshold = happiness z > 30
      in (hasInfrastructure \<and> weatherAllowsGrowth \<and> happinessThreshold, rs1))"

text \<open>
  \<open>canBlockZoneGrow\<close>: the two nested loops visit the four cells of the block and stop at
  the first one that is missing or lacks one of the three basic flags; only when all four
  pass is the weather drawn and the average happiness compared.
\<close>

definition blockOffsets :: "(int \<times> int) list" where
  "blockOffsets = [(0, 0), (1, 0), (0, 1), (1, 1)]"

definition blockCellOk :: "Zone option \<Rightarrow> bool" where
  "blockCellOk zo = (case zo of None \<Rightarrow> False | Some z \<Rightarrow> Zone_hasAllBasicInfrastructure z)"

definition blockCellHappiness :: "Zone option \<Rightarrow> real" where
  "blockCellHappiness zo = (case zo of None \<Rightarrow> 0 | Some z \<Rightarrow> happiness z)"

definition canBlockZoneGrow ::
  "City \<Rightarrow> WeatherState \<Rightarrow> Zone \<Rightarrow> real stream \<Rightarrow> bool \<times> real stream" where
  "canBlockZoneGrow c ws z rs =
     (case (blockZoneX z, blockZoneY z) of
        (Some blockX, Some blockY) \<Rightarrow>
          let cells = map (\<lambda>(dx, dy). City_getZone c (blockX + dx) (blockY + dy)) blockOffsets
          in if \<not> list_all blockCellOk cells then (False, rs)
             else let averageHappiness = sum_list (map blockCellHappiness cells);
                      cellCount = real (length cells);
                      (weatherAllowsGrowth, rs1) = canGrowInCurrentWeather ws rs;
                      happinessThreshold = averageHappiness / cellCount > 40
                  in (weatherAllowsGrowth \<and> happinessThreshold, rs1)
      | _ \<Rightarrow> (False, rs))"

definition canBuildingUpgrade :: "WeatherState \<Rightarrow> Zone \<Rightarrow> real stream \<Rightarrow> bool \<times> real stream" where
  "canBuildingUpgrade ws z rs =
     (case building z of
        None \<Rightarrow> (False, rs)
      | Some b \<Rightarrow>
          if b_size b = LARGE then (False, rs)
          else let happinessThreshold = happiness z > 50;
                   (weatherAllowsGrowth, rs1) = canGrowInCurrentWeather ws rs
               in (happinessThreshold \<and> weatherAllowsGrowth, rs1))"

text \<open>
  Errors thrown by the JavaScript runtime are values: a function that can throw returns
  \<open>jsError + 'a\<close>, with \<open>Inl\<close> for the error.
\<close>

datatype jsError = TypeError | ReferenceError

text \<open>
  City.ts uses the enums \<open>BuildingType\<close> and \<open>BuildingSize\<close> as values but imports neither
  (its import from the types module brings \<open>ZoneType\<close>, \<open>InfrastructureType\<close>,
  \<open>SimulationUpdate\<close> and \<open>GridCell\<close> only). Every branch of the switch of
  \<open>getBlockBuildingType\<close> evaluates \<open>BuildingType.<KIND>_BLOCK\<close>, which throws a
  \<open>ReferenceError\<close>.
\<close>

fun getBlockBuildingType :: "ZoneType \<Rightarrow> jsError + BuildingType" where
  "getBlockBuildingType RESIDENTIAL = Inl ReferenceError"
| "getBlockBuildingType COMMERCIAL = Inl ReferenceError"
| "getBlockBuildingType INDUSTRIAL = Inl ReferenceError"

text \<open>
  \<open>createBlockBuilding\<close>: the early returns give \<open>null\<close>; once the four cells pass the
  infrastructure check, the call of \<open>getBlockBuildingType\<close> throws before any building is
  constructed (the constructor call names \<open>BuildingSize.BLOCK_2X2\<close>, unbound as well).
\<close>

definition createBlockBuilding ::
  "StatsTable \<Rightarrow> City \<Rightarrow> int \<Rightarrow> int \<Rightarrow> ZoneType \<Rightarrow> jsError + (Building option \<times> City)" where
  "createBlockBuilding stats c x y zoneType =
     (case City_getZone c x y of
        None \<Rightarrow> Inr (None, c)
      | Some z \<Rightarrow>
          if \<not> isBlockZone z then Inr (None, c)
          else (case (blockZoneX z, blockZoneY z) of
            (Some blockX, Some blockY) \<Rightarrow>
              let cells = map (\<lambda>(dx, dy). City_getZone c (blockX + dx) (blockY + dy)) blockOffsets
              in if \<not> list_all blockCellOk cells then Inr (None, c)
                 else (case getBlockBuildingType zoneType of
                         Inl e \<Rightarrow> Inl e
                       | Inr blockType \<Rightarrow>
                           let b = Building_new stats (BlockId blockX blockY) blockX blockY
                                     zoneType BLOCK_2X2 (Some blockType) True
                           in (case City_getZone c blockX blockY of
                                 None \<Rightarrow> Inr (Some b, c)
                               | Some topLeftZone \<Rightarrow>
                                   Inr (Some b, setZoneAt c blockX blockY
                                                  (topLeftZone\<lparr>building := Some b\<rparr>))))
          | _ \<Rightarrow> Inr (None, c)))"

text \<open>
  The body of the two loops of \<open>simulateBuildingGrowth\<close> for the cell at \<open>(x, y)\<close>. The id
  of a grown building takes one draw, between the weather draw and the spawn draw. An
  error thrown by \<open>createBlockBuilding\<close> leaves the loop.
\<close>

definition growCell ::
  "StatsTable \<Rightarrow> WeatherState \<Rightarrow> int \<times> int \<Rightarrow> City \<times> real stream \<Rightarrow>
   jsError + (City \<times> real stream)" where
  "growCell stats ws p s =
     (case (p, s) of ((x, y), (c, rs)) \<Rightarrow>
      let zone = zoneAt c x y in
      if Zone_getType zone \<noteq> None \<and> building zone = None then
        if isBlockZone zone then
          if blockZoneX zone = Some x \<and> blockZoneY zone = Some y then
            let (ok, rs1) = canBlockZoneGrow c ws zone rs
            in if ok
               then (case createBlockBuilding stats c x y (z_type zone) of
                       Inl e \<Rightarrow> Inl e
                     | Inr (created, c') \<Rightarrow> Inr (c', rs1))
               else Inr (c, rs1)
          else Inr (c, rs)
        else
          let (ok, rs1) = canZoneGrow ws zone rs
          in if ok
             then let buildingId = GrownId (shd rs1);
                      (created, zone', rs2) = Zone_createBuilding stats zone buildingId (stl rs1)
                  in Inr (setZoneAt c x y zone', rs2)
             else Inr (c, rs1)
      else if building zone \<noteq> None then
        let (ok, rs1) = canBuildingUpgrade ws zone rs
        in if ok
           then let (r, zone', rs2) = Zone_upgradeBuilding stats zone rs1
                in Inr (setZoneAt c x y zone', rs2)
           else Inr (c, rs1)
      else Inr (c, rs))"

text \<open>Row-major scan order: \<open>y\<close> outer, \<open>x\<close> inner.\<close>

definition scanOrder :: "nat \<Rightarrow> nat \<Rightarrow> (int \<times> int) list" where
  "scanOrder w h = concat (map (\<lambda>y. map (\<lambda>x. (int x, int y)) [0..<w]) [0..<h])"

text \<open>The two loops of \<open>simulateBuildingGrowth\<close>, stopping at the first error.\<close>

fun growCells ::
  "StatsTable \<Rightarrow> WeatherState \<Rightarrow> (int \<times> int) list \<Rightarrow> City \<times> real stream \<Rightarrow>
   jsError + (City \<times> real stream)" where
  "growCells stats ws [] s = Inr s"
| "growCells stats ws (p # ps) s =
     (case growCell stats ws p s of
        Inl e \<Rightarrow> Inl e
      | Inr s' \<Rightarrow> growCells stats ws ps s')"

definition simulateBuildingGrowth ::
  "StatsTable \<Rightarrow> WeatherState \<Rightarrow> City \<Rightarrow> real stream \<Rightarrow> jsError + (City \<times> real stream)" where
  "simulateBuildingGrowth stats ws c rs =
     growCells stats ws (scanOrder (gridWidth c) (gridHeight c)) (c, rs)"

text \<open>utils.ts \<open>clamp\<close>.\<close>

definition clamp :: "real \<Rightarrow> real \<Rightarrow> real \<Rightarrow> real" where
  "clamp v lo hi = min (max v lo) hi"

text \<open>A table for the closed examples below; none of their conclusions depends on it.\<close>

definition exampleStats :: StatsTable where
  "exampleStats t sz = \<lparr> st_population = 0, st_jobs = 0, st_pollution = 0, st_happiness = 50 \<rparr>"


text \<open>The size after one upgrade step, as the spec describes it.\<close>

fun stepSize :: "BuildingSize \<Rightarrow> BuildingSize" where
  "stepSize SMALL = MEDIUM"
| "stepSize MEDIUM = LARGE"
| "stepSize LARGE = LARGE"
| "stepSize BLOCK_2X2 = BLOCK_2X2"

subsection \<open>Example cities\<close>

text \<open>
  A residential zone at the origin carrying road, power and water, with the given
  happiness and building; a zone carrying only a road; a 1 by 1 city holding one zone.
\<close>

definition fullZone :: "real \<Rightarrow> Building option \<Rightarrow> Zone" where
  "fullZone h b =
     Zone_setHappiness
       ((snd (Zone_addInfrastructure (snd (Zone_addInfrastructure (snd (Zone_addInfrastructure
          (Zone_new 0 0 (Some RESIDENTIAL)) InfraRoad)) InfraPower)) InfraWater))
        \<lparr>building := b\<rparr>) h"

definition oneRoadZone :: Zone where
  "oneRoadZone = snd (Zone_addInfrastructure (Zone_new 0 0 (Some RESIDENTIAL)) InfraRoad)"

definition cityOf :: "Zone \<Rightarrow> City" where
  "cityOf z = setZoneAt (City_new 1 1) 0 0 z"

definition smallHouse :: Building where
  "smallHouse = Building_new exampleStats (GivenId ''house'') 0 0 RESIDENTIAL SMALL None False"

text \<open>
  A two by two city that is one residential block zone anchored at \<open>(0, 0)\<close>: every cell
  carries road, power and water, has happiness 50 and no building.
\<close>

definition blockZone :: "int \<Rightarrow> int \<Rightarrow> Zone" where
  "blockZone x y =
     (Zone_setHappiness
        (snd (Zone_addInfrastructure (snd (Zone_addInfrastructure (snd (Zone_addInfrastructure
           (Zone_new x y (Some RESIDENTIAL)) InfraRoad)) InfraPower)) InfraWater)) 50)
     \<lparr>blockZoneId := Some ''zone_block'', blockZoneX := Some 0, blockZoneY := Some 0\<rparr>"

definition blockCity :: City where
  "blockCity = \<lparr> zones = [[blockZone 0 0, blockZone 1 0], [blockZone 0 1, blockZone 1 1]],
                  gridWidth = 2, gridHeight = 2 \<rparr>"


section \<open>HappinessManager.ts: service buildings\<close>


definition Building_isServiceBuilding :: "Building \<Rightarrow> bool" where
  "Building_isServiceBuilding b =
     (case buildingType b of None \<Rightarrow> False | Some t \<Rightarrow> t \<in> {HOSPITAL, SCHOOL, PARK})"

text \<open>utils.ts \<open>calculateDistance\<close>.\<close>

definition calculateDistance :: "int \<Rightarrow> int \<Rightarrow> int \<Rightarrow> int \<Rightarrow> real" where
  "calculateDistance x1 y1 x2 y2 = sqrt (real_of_int ((x2 - x1)\<^sup>2 + (y2 - y1)\<^sup>2))"














section \<open>Grid cells (types.ts) and InfrastructureConnectivityManager.ts\<close>

datatype NodeId = PowerSourceId int int | PowerConsumerId int int

datatype ConnectivityStatus = Bright | Dim | Dark

record GridCell =
  gc_x :: int
  gc_y :: int
  gc_zoneType :: "ZoneType option"
  gc_infrastructure :: "InfrastructureType list"
  gc_building :: "Building option"
  gc_happiness :: real
  gc_pollution :: real
  gc_isBlockZone :: bool
  gc_blockZoneId :: "string option"
  gc_blockZoneX :: "int option"
  gc_blockZoneY :: "int option"
  hasPower :: bool
  powerSource :: "NodeId option"
  powerCapacity :: real
  powerDemand :: real
  hasRoad :: bool
  hasWater :: bool
  connectivityStatus :: "ConnectivityStatus option"
  connectivityEfficiency :: "real option"

type_synonym Grid = "GridCell list list"

text \<open>utils.ts \<open>hasInfrastructure\<close>.\<close>

definition hasInfrastructure :: "GridCell \<Rightarrow> InfrastructureType \<Rightarrow> bool" where
  "hasInfrastructure cell t = (t \<in> set (gc_infrastructure cell))"

text \<open>
  Reading a grid. A result \<open>None\<close> of a function below stands for the \<open>TypeError\<close> that
  JavaScript throws when a property of \<open>undefined\<close> is read: \<open>grid[0].length\<close> on an empty
  grid, or a field of \<open>grid[y][x]\<close> when row \<open>y\<close> is shorter than \<open>x\<close>. \<open>gridAt\<close> is
  \<open>grid[y][x]\<close> for an existing row \<open>y\<close>, with \<open>None\<close> for \<open>undefined\<close>.
\<close>

definition gridAt :: "Grid \<Rightarrow> int \<Rightarrow> int \<Rightarrow> GridCell option" where
  "gridAt grid x y =
     (if 0 \<le> y \<and> nat y < length grid \<and> 0 \<le> x \<and> nat x < length (grid ! nat y)
      then Some (grid ! nat y ! nat x) else None)"

definition ROAD_CONNECTION_RANGE :: int where "ROAD_CONNECTION_RANGE = 1"
definition POWER_CONNECTION_RANGE :: int where "POWER_CONNECTION_RANGE = 8"
definition WATER_CONNECTION_RANGE :: int where "WATER_CONNECTION_RANGE = 6"

text \<open>
  \<open>getNeighbors\<close> is private and reached only after its caller has read \<open>grid[0].length\<close>,
  so the grid has a first row here; \<open>width0\<close> is its length. The entries pushed are
  \<open>grid[ny][nx]\<close>, which may be \<open>undefined\<close>.
\<close>

definition width0 :: "Grid \<Rightarrow> int" where
  "width0 grid = (case grid of [] \<Rightarrow> 0 | row # _ \<Rightarrow> int (length row))"

definition getNeighbors :: "int \<Rightarrow> int \<Rightarrow> int \<Rightarrow> Grid \<Rightarrow> GridCell option list" where
  "getNeighbors x y rng grid =
     concat (map (\<lambda>dy. concat (map (\<lambda>dx.
       let nx = x + dx; ny = y + dy
       in if (dx = 0 \<and> dy = 0) \<or> nx < 0 \<or> nx \<ge> width0 grid \<or> ny < 0 \<or> ny \<ge> int (length grid)
          then []
          else let distance = calculateDistance x y nx ny
               in if distance \<le> real_of_int rng then [gridAt grid nx ny] else [])
       [- rng..rng])) [- rng..rng])"

text \<open>\<open>neighbors.some(neighbor => hasInfrastructure(neighbor, type))\<close>.\<close>

fun someHasInfrastructure :: "GridCell option list \<Rightarrow> InfrastructureType \<Rightarrow> bool option" where
  "someHasInfrastructure [] t = Some False"
| "someHasInfrastructure (None # cs) t = None"
| "someHasInfrastructure (Some c # cs) t =
     (if hasInfrastructure c t then Some True else someHasInfrastructure cs t)"

definition hasRoadConnectivity :: "int \<Rightarrow> int \<Rightarrow> Grid \<Rightarrow> bool option" where
  "hasRoadConnectivity x y grid =
     (if x < 0 then Some False
      else case grid of
        [] \<Rightarrow> None
      | row0 # _ \<Rightarrow>
          if x \<ge> int (length row0) \<or> y < 0 \<or> y \<ge> int (length grid) then Some False
          else (case gridAt grid x y of
                  None \<Rightarrow> None
                | Some cell \<Rightarrow>
                    if hasInfrastructure cell InfraRoad then Some True
                    else someHasInfrastructure
                           (getNeighbors x y ROAD_CONNECTION_RANGE grid) InfraRoad))"

definition hasPowerConnectivity :: "int \<Rightarrow> int \<Rightarrow> Grid \<Rightarrow> bool option" where
  "hasPowerConnectivity x y grid =
     (if x < 0 then Some False
      else case grid of
        [] \<Rightarrow> None
      | row0 # _ \<Rightarrow>
          if x \<ge> int (length row0) \<or> y < 0 \<or> y \<ge> int (length grid) then Some False
          else (case gridAt grid x y of
                  None \<Rightarrow> None
                | Some cell \<Rightarrow>
                    if hasInfrastructure cell InfraPower then Some True
                    else someHasInfrastructure
                           (getNeighbors x y POWER_CONNECTION_RANGE grid) InfraPower))"

definition hasWaterConnectivity :: "int \<Rightarrow> int \<Rightarrow> Grid \<Rightarrow> bool option" where
  "hasWaterConnectivity x y grid =
     (if x < 0 then Some False
      else case grid of
        [] \<Rightarrow> None
      | row0 # _ \<Rightarrow>
          if x \<ge> int (length row0) \<or> y < 0 \<or> y \<ge> int (length grid) then Some False
          else (case gridAt grid x y of
                  None \<Rightarrow> None
                | Some cell \<Rightarrow>
                    if hasInfrastructure cell InfraWater then Some True
                    else someHasInfrastructure
                           (getNeighbors x y WATER_CONNECTION_RANGE grid) InfraWater))"

text \<open>A grid is rectangular when it has a first row and every row has its length.\<close>

definition rectangular :: "Grid \<Rightarrow> bool" where
  "rectangular grid = (grid \<noteq> [] \<and> list_all (\<lambda>row. int (length row) = width0 grid) grid)"

text \<open>
  The spec's notion of connectivity: the cell itself or some cell of the grid within the
  Euclidean radius carries the flag (the cell itself is at distance 0).
\<close>

definition flagWithinRadius :: "Grid \<Rightarrow> int \<Rightarrow> int \<Rightarrow> int \<Rightarrow> InfrastructureType \<Rightarrow> bool" where
  "flagWithinRadius grid x y radius t =
     (\<exists>nx ny. 0 \<le> nx \<and> nx < width0 grid \<and> 0 \<le> ny \<and> ny < int (length grid) \<and>
        calculateDistance x y nx ny \<le> real_of_int radius \<and>
        hasInfrastructure (grid ! nat ny ! nat nx) t)"


subsection \<open>City.toGridFormat\<close>

definition toGridCell :: "Zone \<Rightarrow> GridCell" where
  "toGridCell zone =
     \<lparr> gc_x = z_x zone, gc_y = z_y zone, gc_zoneType = Zone_getType zone,
       gc_infrastructure = infrastructure zone, gc_building = building zone,
       gc_happiness = happiness zone, gc_pollution = pollution zone,
       gc_isBlockZone = isBlockZone zone, gc_blockZoneId = blockZoneId zone,
       gc_blockZoneX = blockZoneX zone, gc_blockZoneY = blockZoneY zone,
       hasPower = False, powerSource = None, powerCapacity = 0, powerDemand = 0,
       hasRoad = False, hasWater = False,
       connectivityStatus = None, connectivityEfficiency = None \<rparr>"


text \<open>A grid cell at \<open>(x, y)\<close> with the given flags and building, for the examples.\<close>

definition cellWith :: "int \<Rightarrow> int \<Rightarrow> InfrastructureType list \<Rightarrow> Building option \<Rightarrow> GridCell" where
  "cellWith x y infra b = toGridCell ((Zone_new x y None)\<lparr>infrastructure := infra, building := b\<rparr>)"

definition roadRow :: Grid where
  "roadRow = [[cellWith 0 0 [] (Some smallHouse), cellWith 1 0 [InfraRoad] None]]"


section \<open>PowerGridManager.ts\<close>

datatype NodeType = Source | Consumer | Transformer

text \<open>
  A node id is the string \<open>power_source_<x>_<y>\<close> or \<open>power_consumer_<x>_<y>\<close>: the
  datatype \<open>NodeId\<close> keeps the kind and the two coordinates.
\<close>

record PowerNode =
  n_id :: NodeId
  n_x :: int
  n_y :: int
  n_type :: NodeType
  capacity :: real
  demand :: real
  connected :: bool
  n_powerSource :: "NodeId option"

record PowerConnection =
  pc_from :: NodeId
  pc_to :: NodeId
  pc_capacity :: real
  pc_distance :: real
  pc_efficiency :: real

record PowerGrid =
  nodes :: "PowerNode list"
  connections :: "PowerConnection list"
  totalCapacity :: real
  totalDemand :: real
  efficiency :: real

definition POWER_TRANSMISSION_RANGE :: real where "POWER_TRANSMISSION_RANGE = 8"
definition POWER_LINE_EFFICIENCY :: real where "POWER_LINE_EFFICIENCY = 95 / 100"
definition BASE_POWER_DEMAND :: real where "BASE_POWER_DEMAND = 10"
definition POWERPLANT_CAPACITY :: real where "POWERPLANT_CAPACITY = 1000"
definition POWER_OVERLOAD_THRESHOLD :: real where "POWER_OVERLOAD_THRESHOLD = 9 / 10"

text \<open>\<open>getBuildingType()\<close>, \<open>getSize()\<close> and \<open>getIsBlock()\<close> read the fields of the building.\<close>

definition isPowerSource :: "Building \<Rightarrow> bool" where
  "isPowerSource b = (buildingType b = Some POWERPLANT)"

definition isPowerConsumer :: "Building \<Rightarrow> bool" where
  "isPowerConsumer b = (buildingType b \<noteq> Some POWERPLANT)"

definition getPowerSourceCapacity :: "Building \<Rightarrow> real" where
  "getPowerSourceCapacity b =
     (if buildingType b = Some POWERPLANT then POWERPLANT_CAPACITY else 0)"

definition getBuildingPowerDemand :: "Building \<Rightarrow> real" where
  "getBuildingPowerDemand b =
     (let baseDemand = BASE_POWER_DEMAND;
          sizeMultiplier = (if b_size b = SMALL then 1
                            else if b_size b = MEDIUM then 2
                            else if b_size b = LARGE then 4 else 6)
      in if Building_isServiceBuilding b then baseDemand * sizeMultiplier * 2
         else if isBlock b then baseDemand * sizeMultiplier * (3 / 2)
         else baseDemand * sizeMultiplier)"

text \<open>The nodes pushed for the cell at column \<open>x\<close> of row \<open>y\<close>.\<close>

definition nodesOfCell :: "nat \<Rightarrow> nat \<Rightarrow> GridCell \<Rightarrow> PowerNode list" where
  "nodesOfCell x y cell =
     (case gc_building cell of
        None \<Rightarrow> []
      | Some b \<Rightarrow>
          (if isPowerSource b
           then [\<lparr> n_id = PowerSourceId (int x) (int y), n_x = int x, n_y = int y,
                   n_type = Source, capacity = getPowerSourceCapacity b, demand = 0,
                   connected = True,
                   n_powerSource = Some (PowerSourceId (int x) (int y)) \<rparr>]
           else []) @
          (if isPowerConsumer b
           then [\<lparr> n_id = PowerConsumerId (int x) (int y), n_x = int x, n_y = int y,
                   n_type = Consumer, capacity = 0, demand = getBuildingPowerDemand b,
                   connected = False, n_powerSource = None \<rparr>]
           else []))"

definition buildPowerNodes :: "Grid \<Rightarrow> PowerNode list" where
  "buildPowerNodes grid =
     concat (map (\<lambda>(y, row). concat (map (\<lambda>(x, cell). nodesOfCell x y cell)
       (enumerate 0 row))) (enumerate 0 grid))"

text \<open>
  \<open>findNearestPowerSource\<close>: the pair of \<open>nearestSource\<close> and \<open>minDistance\<close>, with \<open>None\<close>
  for the initial \<open>null\<close> and \<open>Infinity\<close>.
\<close>

fun findNearestLoop ::
  "PowerNode \<Rightarrow> PowerNode list \<Rightarrow> (PowerNode \<times> real) option \<Rightarrow> (PowerNode \<times> real) option" where
  "findNearestLoop consumer [] best = best"
| "findNearestLoop consumer (source # rest) best =
     (let distance = calculateDistance (n_x consumer) (n_y consumer) (n_x source) (n_y source)
      in if (case best of None \<Rightarrow> True | Some (_, minDistance) \<Rightarrow> distance < minDistance)
            \<and> distance \<le> POWER_TRANSMISSION_RANGE
         then findNearestLoop consumer rest (Some (source, distance))
         else findNearestLoop consumer rest best)"

definition findNearestPowerSource :: "PowerNode \<Rightarrow> PowerNode list \<Rightarrow> PowerNode option" where
  "findNearestPowerSource consumer sources =
     map_option fst (findNearestLoop consumer sources None)"

text \<open>\<open>Math.round\<close> rounds half up.\<close>

definition Math_round :: "real \<Rightarrow> int" where
  "Math_round v = \<lfloor>v + 1 / 2\<rfloor>"

text \<open>
  \<open>hasPowerLinePath\<close>. With \<open>steps = 0\<close> the only iteration computes \<open>NaN\<close> coordinates,
  which fail the bounds test, and the function returns true. The function is reached only
  for two nodes of the grid, so \<open>grid[0]\<close> exists. A \<open>None\<close> is the \<open>TypeError\<close> of reading
  \<open>cell.infrastructure\<close> on an undefined cell.
\<close>

fun pathLoop :: "int \<Rightarrow> int \<Rightarrow> int \<Rightarrow> int \<Rightarrow> int \<Rightarrow> Grid \<Rightarrow> int list \<Rightarrow> bool option" where
  "pathLoop startX startY dx dy steps grid [] = Some True"
| "pathLoop startX startY dx dy steps grid (i # rest) =
     (let x = Math_round (real_of_int startX + real_of_int (dx * i) / real_of_int steps);
          y = Math_round (real_of_int startY + real_of_int (dy * i) / real_of_int steps)
      in if x \<ge> 0 \<and> x < width0 grid \<and> y \<ge> 0 \<and> y < int (length grid)
         then (case gridAt grid x y of
                 None \<Rightarrow> None
               | Some cell \<Rightarrow>
                   if \<not> hasInfrastructure cell InfraPower then Some False
                   else pathLoop startX startY dx dy steps grid rest)
         else pathLoop startX startY dx dy steps grid rest)"

definition hasPowerLinePath :: "int \<Rightarrow> int \<Rightarrow> int \<Rightarrow> int \<Rightarrow> Grid \<Rightarrow> bool option" where
  "hasPowerLinePath startX startY endX endY grid =
     (let dx = endX - startX; dy = endY - startY; steps = max \<bar>dx\<bar> \<bar>dy\<bar>
      in if steps = 0 then Some True
         else pathLoop startX startY dx dy steps grid [0..steps])"

definition canTransmitPower :: "PowerNode \<Rightarrow> PowerNode \<Rightarrow> Grid \<Rightarrow> bool option" where
  "canTransmitPower consumer source grid =
     hasPowerLinePath (n_x consumer) (n_y consumer) (n_x source) (n_y source) grid"

text \<open>The connection object pushed by \<open>buildPowerConnections\<close>.\<close>

definition makeConnection :: "PowerNode \<Rightarrow> PowerNode \<Rightarrow> PowerConnection" where
  "makeConnection nearestSource consumer =
     (let distance = calculateDistance (n_x consumer) (n_y consumer)
                       (n_x nearestSource) (n_y nearestSource);
          eff = max (1 / 10) (POWER_LINE_EFFICIENCY - distance * (1 / 100))
      in \<lparr> pc_from = n_id nearestSource, pc_to = n_id consumer,
           pc_capacity = min (capacity nearestSource) (demand consumer),
           pc_distance = distance, pc_efficiency = eff \<rparr>)"

text \<open>
  One iteration of the loop of \<open>buildPowerConnections\<close>: the consumer node as the loop
  leaves it, and the connection pushed, if any.
\<close>

definition connectConsumer ::
  "PowerNode list \<Rightarrow> Grid \<Rightarrow> PowerNode \<Rightarrow> (PowerNode \<times> PowerConnection list) option" where
  "connectConsumer sources grid consumer =
     (case findNearestPowerSource consumer sources of
        None \<Rightarrow> Some (consumer, [])
      | Some nearestSource \<Rightarrow>
          (case canTransmitPower consumer nearestSource grid of
             None \<Rightarrow> None
           | Some False \<Rightarrow> Some (consumer, [])
           | Some True \<Rightarrow>
               Some (consumer\<lparr>connected := True, n_powerSource := Some (n_id nearestSource)\<rparr>,
                     [makeConnection nearestSource consumer])))"

text \<open>
  The loop runs over the consumer nodes in the order of \<open>nodes\<close> and mutates them in place;
  the other nodes are untouched. The result is the connection list and the node list after
  the loop.
\<close>

fun connectAll ::
  "PowerNode list \<Rightarrow> Grid \<Rightarrow> PowerNode list \<Rightarrow> (PowerConnection list \<times> PowerNode list) option" where
  "connectAll sources grid [] = Some ([], [])"
| "connectAll sources grid (n # ns) =
     (if n_type n = Consumer
      then (case connectConsumer sources grid n of
              None \<Rightarrow> None
            | Some (n', cs) \<Rightarrow>
                (case connectAll sources grid ns of
                   None \<Rightarrow> None
                 | Some (conns, ns') \<Rightarrow> Some (cs @ conns, n' # ns')))
      else (case connectAll sources grid ns of
              None \<Rightarrow> None
            | Some (conns, ns') \<Rightarrow> Some (conns, n # ns')))"

definition buildPowerConnections ::
  "PowerNode list \<Rightarrow> Grid \<Rightarrow> (PowerConnection list \<times> PowerNode list) option" where
  "buildPowerConnections ns grid =
     (let powerSources = filter (\<lambda>node. n_type node = Source) ns
      in connectAll powerSources grid ns)"

text \<open>\<open>nodes.find(node => node.id === id)\<close>, as the index of the first match.\<close>

fun findIndex :: "('a \<Rightarrow> bool) \<Rightarrow> 'a list \<Rightarrow> nat option" where
  "findIndex P [] = None"
| "findIndex P (x # xs) =
     (if P x then Some 0 else map_option Suc (findIndex P xs))"

text \<open>
  One iteration of the distribution loop of \<open>simulatePowerFlow\<close>. The consumer object is
  written first, then the source object.
\<close>

definition flowStep :: "PowerConnection \<Rightarrow> PowerNode list \<Rightarrow> PowerNode list" where
  "flowStep connection ns =
     (case (findIndex (\<lambda>node. n_id node = pc_from connection) ns,
            findIndex (\<lambda>node. n_id node = pc_to connection) ns) of
        (Some i, Some j) \<Rightarrow>
          let availablePower = capacity (ns ! i);
              requiredPower = demand (ns ! j)
          in if availablePower \<ge> requiredPower
             then let ns1 = ns[j := (ns ! j)\<lparr>connected := True,
                                              n_powerSource := Some (n_id (ns ! i))\<rparr>]
                  in ns1[i := (ns1 ! i)\<lparr>capacity := capacity (ns1 ! i) - requiredPower\<rparr>]
             else let ns1 = ns[j := (ns ! j)\<lparr>connected := True,
                                              n_powerSource := Some (n_id (ns ! i)),
                                              demand := availablePower\<rparr>]
                  in ns1[i := (ns1 ! i)\<lparr>capacity := 0\<rparr>]
      | _ \<Rightarrow> ns)"

definition resetNode :: "PowerNode \<Rightarrow> PowerNode" where
  "resetNode node =
     (if n_type node = Consumer then node\<lparr>connected := False, n_powerSource := None\<rparr>
      else node)"

definition simulatePowerFlow :: "PowerNode list \<Rightarrow> PowerConnection list \<Rightarrow> PowerNode list" where
  "simulatePowerFlow ns conns = fold flowStep conns (map resetNode ns)"

definition sourceCapacity :: "PowerNode list \<Rightarrow> real" where
  "sourceCapacity ns = sum_list (map capacity (filter (\<lambda>node. n_type node = Source) ns))"

definition consumerDemand :: "PowerNode list \<Rightarrow> real" where
  "consumerDemand ns = sum_list (map demand (filter (\<lambda>node. n_type node = Consumer) ns))"

definition calculatePowerDistribution :: "Grid \<Rightarrow> PowerGrid option" where
  "calculatePowerDistribution grid =
     (let ns0 = buildPowerNodes grid
      in case buildPowerConnections ns0 grid of
           None \<Rightarrow> None
         | Some (conns, ns1) \<Rightarrow>
             let ns2 = simulatePowerFlow ns1 conns;
                 totCapacity = sourceCapacity ns2;
                 totDemand = consumerDemand ns2;
                 eff = (if totCapacity > 0 then min 1 (totDemand / totCapacity) else 0)
             in Some \<lparr> nodes = ns2, connections = conns, totalCapacity = totCapacity,
                       totalDemand = totDemand, efficiency = eff \<rparr>)"

definition isPowerGridOverloaded :: "PowerGrid \<Rightarrow> bool" where
  "isPowerGridOverloaded pg = (efficiency pg > POWER_OVERLOAD_THRESHOLD)"


text \<open>The demand allotted to connected consumers.\<close>

definition allottedDemand :: "PowerNode list \<Rightarrow> real" where
  "allottedDemand ns =
     sum_list (map demand (filter (\<lambda>node. n_type node = Consumer \<and> connected node) ns))"

subsection \<open>Example grids\<close>

definition powerPlant :: Building where
  "powerPlant = Building_new exampleStats (GivenId ''plant'') 0 0 INDUSTRIAL LARGE
                  (Some POWERPLANT) False"

definition houseAt :: "int \<Rightarrow> int \<Rightarrow> Building" where
  "houseAt x y = Building_new exampleStats (GivenId ''house'') x y RESIDENTIAL SMALL
                   (Some HOUSE) False"

definition hospitalAt :: "int \<Rightarrow> int \<Rightarrow> Building" where
  "hospitalAt x y = Building_new exampleStats (GivenId ''hospital'') x y COMMERCIAL LARGE
                      (Some HOSPITAL) False"

text \<open>
  A row of fourteen power-line cells: a plant at column 7 and a large hospital on each of
  the thirteen other cells, all within the transmission range.
\<close>

definition hospitalRow :: Grid where
  "hospitalRow =
     [map (\<lambda>x. cellWith x 0 [InfraPower]
             (if x = 7 then Some powerPlant else Some (hospitalAt x 0))) [0..13]]"

text \<open>A plant and one house, both on power-line cells.\<close>

definition plantAndHouse :: Grid where
  "plantAndHouse =
     [[cellWith 0 0 [InfraPower] (Some powerPlant), cellWith 1 0 [InfraPower] (Some (houseAt 1 0))]]"


subsection \<open>Well-formed nodes and connections\<close>






text \<open>Short forms of the two kinds of node, for the examples.\<close>

definition srcNode :: "int \<Rightarrow> int \<Rightarrow> real \<Rightarrow> PowerNode" where
  "srcNode x y c = \<lparr> n_id = PowerSourceId x y, n_x = x, n_y = y,
                      n_type = Source, capacity = c, demand = 0,
                      connected = True, n_powerSource = Some (PowerSourceId x y) \<rparr>"

definition conNode :: "int \<Rightarrow> int \<Rightarrow> real \<Rightarrow> bool \<Rightarrow> NodeId option \<Rightarrow> PowerNode" where
  "conNode x y d c s = \<lparr> n_id = PowerConsumerId x y, n_x = x, n_y = y,
                          n_type = Consumer, capacity = 0, demand = d,
                          connected = c, n_powerSource = s \<rparr>"

text \<open>The nodes of \<open>hospitalRow\<close> after the flow: twelve hospitals served in full, the last one with what was left.\<close>

definition hospitalRowFinal :: "PowerNode list" where
  "hospitalRowFinal =
     map (\<lambda>x. conNode x 0 80 True (Some (PowerSourceId 7 0))) [0..6] @ [srcNode 7 0 0] @
     map (\<lambda>x. conNode x 0 80 True (Some (PowerSourceId 7 0))) [8..12] @
     [conNode 13 0 40 True (Some (PowerSourceId 7 0))]"


section \<open>HappinessManager.ts: the happiness pass\<close>







section \<open>TransportManager.ts\<close>









section \<open>EconomyManager.ts: the figures that the update record carries\<close>








section \<open>City.simulate and SimulationEngine.simulate\<close>










subsection \<open>City.fromGridFormat\<close>



subsection \<open>Grid annotations\<close>











subsection \<open>SimulationEngine.simulate\<close>









subsection \<open>The example tick\<close>








section \<open>Infrastructure flags\<close>


lemma Zone_new_distinct: "distinct (infrastructure (Zone_new x y t))"
  by (simp add: Zone_new_def)

lemma Zone_removeInfrastructure_distinct:
  "distinct (infrastructure z) \<Longrightarrow> distinct (infrastructure (Zone_removeInfrastructure z t))"
  by (simp add: Zone_removeInfrastructure_def)

lemma setZoneAt_same:
  assumes "City_wf c" "0 \<le> x" "x < int (gridWidth c)" "0 \<le> y" "y < int (gridHeight c)"
  shows "setZoneAt c x y (zoneAt c x y) = c"
  using assms by (simp add: setZoneAt_def zoneAt_def)

lemma zoneAt_setZoneAt:
  assumes "City_wf c" "0 \<le> x" "x < int (gridWidth c)" "0 \<le> y" "y < int (gridHeight c)"
  shows "zoneAt (setZoneAt c x y z) x y = z"
proof -
  have ly: "nat y < length (zones c)"
    using assms by (simp add: City_wf_def)
  have "length (zones c ! nat y) = gridWidth c"
    using assms ly by (simp add: City_wf_def list_all_length)
  then have lx: "nat x < length (zones c ! nat y)"
    using assms by simp
  show ?thesis
    using ly lx by (simp add: setZoneAt_def zoneAt_def)
qed

lemma City_addInfrastructure_out_of_bounds:
  "x < 0 \<or> x \<ge> int (gridWidth c) \<or> y < 0 \<or> y \<ge> int (gridHeight c) \<Longrightarrow>
   City_addInfrastructure c x y t = (False, c)"
  by (simp add: City_addInfrastructure_def)

lemma City_addInfrastructure_present:
  assumes "City_wf c" "0 \<le> x" "x < int (gridWidth c)" "0 \<le> y" "y < int (gridHeight c)"
    and "t \<in> set (infrastructure (zoneAt c x y))"
  shows "City_addInfrastructure c x y t = (False, c)"
  using assms
  by (simp add: City_addInfrastructure_def Zone_addInfrastructure_def setZoneAt_same)

lemma City_addInfrastructure_absent:
  assumes "City_wf c" "0 \<le> x" "x < int (gridWidth c)" "0 \<le> y" "y < int (gridHeight c)"
    and "t \<notin> set (infrastructure (zoneAt c x y))"
  shows "fst (City_addInfrastructure c x y t) = True \<and>
         infrastructure (zoneAt (snd (City_addInfrastructure c x y t)) x y) =
           infrastructure (zoneAt c x y) @ [t]"
  using assms
  by (simp add: City_addInfrastructure_def Zone_addInfrastructure_def zoneAt_setZoneAt)

text \<open>
  C10. Adding an infrastructure flag to a cell is idempotent: when the flag is already
  present \<open>addInfrastructure\<close> returns false and leaves the cell unchanged; when it is
  absent it returns true and appends exactly that flag. Hence a duplicate-free list stays
  duplicate-free, and adding the same flag a second time returns false and changes nothing.
\<close>

theorem addInfrastructure_idempotent:
  "(t \<in> set (infrastructure z) \<longrightarrow> Zone_addInfrastructure z t = (False, z)) \<and>
   (t \<notin> set (infrastructure z) \<longrightarrow>
      Zone_addInfrastructure z t = (True, z\<lparr>infrastructure := infrastructure z @ [t]\<rparr>)) \<and>
   (distinct (infrastructure z) \<longrightarrow>
      distinct (infrastructure (snd (Zone_addInfrastructure z t)))) \<and>
   Zone_addInfrastructure (snd (Zone_addInfrastructure z t)) t =
      (False, snd (Zone_addInfrastructure z t))"
  by (simp add: Zone_addInfrastructure_def)

theorem addInfrastructure_idempotent_witness:
  "InfraRoad \<notin> set (infrastructure (Zone_new 0 0 None)) \<and>
   distinct (infrastructure (Zone_new 0 0 None)) \<and>
   infrastructure (snd (Zone_addInfrastructure (Zone_new 0 0 None) InfraRoad)) = [InfraRoad] \<and>
   fst (Zone_addInfrastructure (Zone_new 0 0 None) InfraRoad) \<and>
   InfraRoad \<in> set (infrastructure (snd (Zone_addInfrastructure (Zone_new 0 0 None) InfraRoad))) \<and>
   Zone_addInfrastructure (snd (Zone_addInfrastructure (Zone_new 0 0 None) InfraRoad)) InfraRoad =
     (False, snd (Zone_addInfrastructure (Zone_new 0 0 None) InfraRoad))"
  using addInfrastructure_idempotent [of InfraRoad "Zone_new 0 0 None"]
    addInfrastructure_idempotent
      [of InfraRoad "snd (Zone_addInfrastructure (Zone_new 0 0 None) InfraRoad)"]
  by (simp add: Zone_new_def)

section \<open>Zone placement\<close>

lemma City_addZone_always_false: "City_addZone c x y t = (False, c)"
  by (simp add: City_addZone_def Zone_getType_def Let_def)

text \<open>
  C5. The add-zone operation is meant to return true and set the zone type of an in-bounds
  cell that has not been zoned. On a freshly initialised 2 by 2 city the call
  \<open>addZone(0, 0, COMMERCIAL)\<close> is in bounds, yet it returns false and leaves the city
  unchanged, the cell keeping the residential default of the \<open>Zone\<close> constructor.
\<close>

theorem addZone_fresh_city_fails:
  "City_addZone (City_new 2 2) 0 0 COMMERCIAL = (False, City_new 2 2) \<and>
   z_type (zoneAt (snd (City_addZone (City_new 2 2) 0 0 COMMERCIAL)) 0 0) = RESIDENTIAL \<and>
   (0::int) < int (gridWidth (City_new 2 2)) \<and> (0::int) < int (gridHeight (City_new 2 2))"
  by (simp add: City_addZone_always_false)
     (simp add: City_new_def initializeZones_def zoneAt_def Zone_new_def upt_rec)

section \<open>Bounds of pollution\<close>

lemma Zone_setPollution_bounds:
  "0 \<le> pollution (Zone_setPollution z p) \<and> pollution (Zone_setPollution z p) \<le> 100"
  by (simp add: Zone_setPollution_def)

lemma Zone_setHappiness_bounds:
  "0 \<le> happiness (Zone_setHappiness z h) \<and> happiness (Zone_setHappiness z h) \<le> 100"
  by (simp add: Zone_setHappiness_def)

text \<open>
  C4. Every cell's pollution is meant to stay within 0 and 100 after the weather effects
  are applied. A cell without a building whose pollution is 50 (a value \<open>setPollution\<close>
  accepts) ends the sunny-weather effect with pollution -2: \<open>updatePollution\<close> receives the
  clamped difference and only bounds its result from above.
\<close>

theorem weather_pollution_negative:
  "pollution (Zone_setPollution (Zone_new 0 0 None) 50) = 50 \<and>
   pollution (applyWeatherPollutionEffect initialWeather
      (Zone_setPollution (Zone_new 0 0 None) 50)) = -2 \<and>
   map (map pollution) (applyWeatherEffects initialWeather
      [[Zone_setPollution (Zone_new 0 0 None) 50]]) = [[-2]]"
  by (simp add: applyWeatherEffects_def applyWeatherEffectsZone_def
      applyWeatherPollutionEffect_def Zone_updatePollution_def Zone_setPollution_def
      Zone_new_def initialWeather_def getCurrentWeatherEffect_def Let_def)

section \<open>Growth\<close>

lemmas example_defs = fullZone_def oneRoadZone_def cityOf_def smallHouse_def City_new_def
  initializeZones_def setZoneAt_def zoneAt_def Zone_new_def Zone_addInfrastructure_def
  Zone_setHappiness_def Building_new_def exampleStats_def initialWeather_def
  getCurrentWeatherEffect_def

lemmas growth_defs = growCell_def Zone_getType_def isBlockZone_def canZoneGrow_def
  canGrowInCurrentWeather_def Zone_createBuilding_def canBuildingUpgrade_def
  Zone_upgradeBuilding_def Zone_shouldUpgradeBuilding_def Zone_shouldCreateBuilding_def
  Zone_hasAllBasicInfrastructure_def Let_def

lemma cityOf_wf: "City_wf (cityOf z)"
  by (simp add: City_wf_def cityOf_def City_new_def initializeZones_def setZoneAt_def)

lemma zoneAt_cityOf: "zoneAt (cityOf z) 0 0 = z"
  by (simp add: cityOf_def City_new_def initializeZones_def setZoneAt_def zoneAt_def)

lemma cityOf_dims: "gridWidth (cityOf z) = 1 \<and> gridHeight (cityOf z) = 1"
  by (simp add: cityOf_def City_new_def setZoneAt_def)

lemma growCell_single_iff:
  assumes wf: "City_wf c" and bx: "0 \<le> x" "x < int (gridWidth c)"
    and by': "0 \<le> y" "y < int (gridHeight c)"
    and nb: "building (zoneAt c x y) = None" and nblk: "\<not> isBlockZone (zoneAt c x y)"
  shows "\<exists>c' rs'. growCell stats ws (x, y) (c, rs) = Inr (c', rs') \<and>
     (building (zoneAt c' x y) \<noteq> None \<longleftrightarrow>
     (length (infrastructure (zoneAt c x y)) > 0 \<and>
      shd rs < growthModifier (getCurrentWeatherEffect ws) \<and>
      happiness (zoneAt c x y) > 30 \<and>
      Zone_hasAllBasicInfrastructure (zoneAt c x y) \<and>
      shd (stl (stl rs)) <
        3/10 + real (length (infrastructure (zoneAt c x y))) * (1/10)
          + happiness (zoneAt c x y) / 200))"
  using nb nblk
  by (auto simp add: growCell_def Zone_getType_def canZoneGrow_def canGrowInCurrentWeather_def
      Zone_createBuilding_def Zone_shouldCreateBuilding_def Let_def
      zoneAt_setZoneAt[OF wf bx by'] split: prod.splits if_splits)

text \<open>
  C2 (as the code has it). For a single-cell (non-block) zone without a building, the
  growth step returns without an error and spawns a building exactly when the cell has at least one infrastructure
  flag, the weather draw is below the weather's growth modifier, the cell's happiness
  exceeds 30, the cell carries all three of road, power and water, and the spawn draw
  (a uniform draw of the unit interval) is below
  clamp(0.3 + 0.1 * (number of flags) + happiness/200, 0, 1).
\<close>

theorem single_cell_growth:
  assumes "City_wf c" and "0 \<le> x" and "x < int (gridWidth c)"
    and "0 \<le> y" and "y < int (gridHeight c)"
    and "building (zoneAt c x y) = None" and "\<not> isBlockZone (zoneAt c x y)"
    and "0 \<le> shd (stl (stl rs))" and "shd (stl (stl rs)) < 1"
  shows "\<exists>c' rs'. growCell stats ws (x, y) (c, rs) = Inr (c', rs') \<and>
     (building (zoneAt c' x y) \<noteq> None \<longleftrightarrow>
     (length (infrastructure (zoneAt c x y)) > 0 \<and>
      shd rs < growthModifier (getCurrentWeatherEffect ws) \<and>
      happiness (zoneAt c x y) > 30 \<and>
      Zone_hasAllBasicInfrastructure (zoneAt c x y) \<and>
      shd (stl (stl rs)) <
        clamp (3/10 + real (length (infrastructure (zoneAt c x y))) * (1/10)
                 + happiness (zoneAt c x y) / 200) 0 1))"
proof -
  let ?p = "3/10 + real (length (infrastructure (zoneAt c x y))) * (1/10)
              + happiness (zoneAt c x y) / 200"
  have "shd (stl (stl rs)) < clamp ?p 0 1 \<longleftrightarrow> shd (stl (stl rs)) < ?p"
    using assms(8,9) by (auto simp add: clamp_def min_def max_def)
  then show ?thesis
    using growCell_single_iff [OF assms(1-7), of stats ws rs] by simp
qed

theorem single_cell_growth_witness:
  "City_wf (cityOf (fullZone 50 None)) \<and>
   building (zoneAt (cityOf (fullZone 50 None)) 0 0) = None \<and>
   \<not> isBlockZone (zoneAt (cityOf (fullZone 50 None)) 0 0) \<and>
   (0::real) \<le> shd (stl (stl (sconst 0))) \<and> shd (stl (stl (sconst (0::real)))) < 1 \<and>
   (\<exists>c' rs'. growCell exampleStats initialWeather (0, 0)
       (cityOf (fullZone 50 None), sconst 0) = Inr (c', rs') \<and>
      building (zoneAt c' 0 0) \<noteq> None)"
proof -
  have z: "zoneAt (cityOf (fullZone 50 None)) 0 0 = fullZone 50 None"
    by (rule zoneAt_cityOf)
  have h: "building (fullZone 50 None) = None" "\<not> isBlockZone (fullZone 50 None)"
    by (simp_all add: example_defs isBlockZone_def)
  have rhs: "length (infrastructure (fullZone 50 None)) > 0 \<and>
      shd (sconst (0::real)) < growthModifier (getCurrentWeatherEffect initialWeather) \<and>
      happiness (fullZone 50 None) > 30 \<and>
      Zone_hasAllBasicInfrastructure (fullZone 50 None) \<and>
      shd (stl (stl (sconst (0::real)))) <
        clamp (3/10 + real (length (infrastructure (fullZone 50 None))) * (1/10)
                 + happiness (fullZone 50 None) / 200) 0 1"
    by (simp add: example_defs Zone_hasAllBasicInfrastructure_def clamp_def)
  show ?thesis
    using single_cell_growth [of "cityOf (fullZone 50 None)" 0 0 "sconst 0" exampleStats
        initialWeather] rhs h
    by (simp add: cityOf_wf cityOf_dims z)
qed

text \<open>
  The claim as the spec words it fails: a cell with one infrastructure flag (a road),
  happiness 50 and a passing weather draw has spawn probability clamp(0.65, 0, 1) > 0
  according to the spec, yet no building appears even when every draw is 0.
\<close>

theorem single_cell_growth_counterexample:
  "length (infrastructure oneRoadZone) = 1 \<and> happiness oneRoadZone = 50 \<and>
   fst (canGrowInCurrentWeather initialWeather (sconst 0)) \<and>
   (0::real) < clamp (3/10 + 1 * (1/10) + 50/200) 0 1 \<and>
   growCell exampleStats initialWeather (0, 0) (cityOf oneRoadZone, sconst 0) =
     Inr (cityOf oneRoadZone, sconst 0) \<and>
   building (zoneAt (cityOf oneRoadZone) 0 0) = None"
  by (simp add: example_defs growth_defs clamp_def)

lemma Building_upgrade_size:
  "b_size (snd (Building_upgrade stats b)) = stepSize (b_size b)"
  by (cases "b_size b") (simp_all add: Building_upgrade_def resize_def)

text \<open>
  C7 (as the code has it). For a cell holding a building, the growth step returns
  without an error and replaces the building by its upgrade exactly when its size is not large, the cell's happiness exceeds
  50 and the weather draw passes (\<open>canBuildingUpgrade\<close>), and moreover the cell carries
  road, power and water, its happiness exceeds 60 and a second draw is below 0.2
  (\<open>shouldUpgradeBuilding\<close>); otherwise the building is unchanged. An upgrade moves the
  size one step (small to medium, medium to large) and leaves a large or block building
  as it is, so the size never decreases.
\<close>

theorem building_upgrade_step:
  assumes wf: "City_wf c" and bx: "0 \<le> x" "x < int (gridWidth c)"
    and by': "0 \<le> y" "y < int (gridHeight c)"
    and b: "building (zoneAt c x y) = Some b"
  shows "(\<exists>c' rs'. growCell stats ws (x, y) (c, rs) = Inr (c', rs') \<and>
      building (zoneAt c' x y) =
      Some (if b_size b \<noteq> LARGE \<and> happiness (zoneAt c x y) > 50 \<and>
               shd rs < growthModifier (getCurrentWeatherEffect ws) \<and>
               Zone_hasAllBasicInfrastructure (zoneAt c x y) \<and>
               happiness (zoneAt c x y) > 60 \<and> shd (stl rs) < 2/10
            then snd (Building_upgrade stats b) else b)) \<and>
     b_size (snd (Building_upgrade stats b)) = stepSize (b_size b)"
proof -
  have "(\<exists>c' rs'. growCell stats ws (x, y) (c, rs) = Inr (c', rs') \<and>
      building (zoneAt c' x y) =
      Some (if b_size b \<noteq> LARGE \<and> happiness (zoneAt c x y) > 50 \<and>
               shd rs < growthModifier (getCurrentWeatherEffect ws) \<and>
               Zone_hasAllBasicInfrastructure (zoneAt c x y) \<and>
               happiness (zoneAt c x y) > 60 \<and> shd (stl rs) < 2/10
            then snd (Building_upgrade stats b) else b))"
    using b
    by (auto simp add: growCell_def Zone_getType_def canBuildingUpgrade_def
        canGrowInCurrentWeather_def Zone_upgradeBuilding_def Zone_shouldUpgradeBuilding_def
        Let_def zoneAt_setZoneAt[OF wf bx by'] split: prod.splits if_splits)
  then show ?thesis
    by (simp add: Building_upgrade_size)
qed

theorem building_upgrade_step_witness:
  "City_wf (cityOf (fullZone 70 (Some smallHouse))) \<and>
   building (zoneAt (cityOf (fullZone 70 (Some smallHouse))) 0 0) = Some smallHouse \<and>
   (\<exists>c' rs'. growCell exampleStats initialWeather (0, 0)
       (cityOf (fullZone 70 (Some smallHouse)), sconst 0) = Inr (c', rs') \<and>
      map_option b_size (building (zoneAt c' 0 0)) = Some MEDIUM)"
proof -
  have z: "zoneAt (cityOf (fullZone 70 (Some smallHouse))) 0 0 = fullZone 70 (Some smallHouse)"
    by (rule zoneAt_cityOf)
  have b: "building (fullZone 70 (Some smallHouse)) = Some smallHouse"
    by (simp add: fullZone_def Zone_setHappiness_def)
  have c: "b_size smallHouse \<noteq> LARGE \<and> happiness (fullZone 70 (Some smallHouse)) > 50 \<and>
      shd (sconst (0::real)) < growthModifier (getCurrentWeatherEffect initialWeather) \<and>
      Zone_hasAllBasicInfrastructure (fullZone 70 (Some smallHouse)) \<and>
      happiness (fullZone 70 (Some smallHouse)) > 60 \<and> shd (stl (sconst (0::real))) < 2/10"
    by (simp add: example_defs Zone_hasAllBasicInfrastructure_def)
  have s: "b_size smallHouse = SMALL"
    by (simp add: smallHouse_def Building_new_def)
  show ?thesis
    using building_upgrade_step [of "cityOf (fullZone 70 (Some smallHouse))" 0 0 smallHouse
        exampleStats initialWeather "sconst 0"] b c s
    by (auto simp add: cityOf_wf cityOf_dims z)
qed

text \<open>
  The claim as the spec words it fails: a small building on a cell with happiness 55 and
  a passing weather draw stays small, even with all three flags and every draw 0.
\<close>

theorem building_upgrade_counterexample:
  "b_size smallHouse = SMALL \<and>
   happiness (zoneAt (cityOf (fullZone 55 (Some smallHouse))) 0 0) = 55 \<and>
   fst (canGrowInCurrentWeather initialWeather (sconst 0)) \<and>
   growCell exampleStats initialWeather (0, 0)
       (cityOf (fullZone 55 (Some smallHouse)), sconst 0) =
     Inr (cityOf (fullZone 55 (Some smallHouse)), sconst 0) \<and>
   map_option b_size (building (zoneAt (cityOf (fullZone 55 (Some smallHouse))) 0 0)) =
     Some SMALL"
  by (simp add: example_defs growth_defs)

text \<open>
  Growth on a block zone: when the four cells pass the checks of \<open>canBlockZoneGrow\<close>, the
  call of \<open>createBlockBuilding\<close> throws the \<open>ReferenceError\<close>, and so does the growth pass.
\<close>

lemma blockZone_fields:
  "building (blockZone x y) = None" "isBlockZone (blockZone x y)"
  "blockZoneX (blockZone x y) = Some 0" "blockZoneY (blockZone x y) = Some 0"
  "happiness (blockZone x y) = 50" "Zone_hasAllBasicInfrastructure (blockZone x y)"
  "z_type (blockZone x y) = RESIDENTIAL"
  by (simp_all add: blockZone_def isBlockZone_def Zone_setHappiness_def
      Zone_addInfrastructure_def Zone_new_def Zone_hasAllBasicInfrastructure_def)

lemma blockCity_cells:
  "map (\<lambda>(dx, dy). City_getZone blockCity dx dy) blockOffsets =
     [Some (blockZone 0 0), Some (blockZone 1 0), Some (blockZone 0 1), Some (blockZone 1 1)]"
  by (simp add: blockOffsets_def City_getZone_def blockCity_def zoneAt_def)

lemma block_growth_throws:
  "growCell exampleStats initialWeather (0, 0) (blockCity, sconst 0) = Inl ReferenceError"
proof -
  have z: "zoneAt blockCity 0 0 = blockZone 0 0"
    by (simp add: blockCity_def zoneAt_def)
  have g: "City_getZone blockCity 0 0 = Some (blockZone 0 0)"
    by (simp add: City_getZone_def blockCity_def zoneAt_def)
  have grow: "canBlockZoneGrow blockCity initialWeather (blockZone 0 0) (sconst 0) = (True, sconst 0)"
    by (simp add: canBlockZoneGrow_def blockZone_fields blockCity_cells blockCellOk_def
        blockCellHappiness_def canGrowInCurrentWeather_def getCurrentWeatherEffect_def
        initialWeather_def Let_def)
  have create: "createBlockBuilding exampleStats blockCity 0 0 RESIDENTIAL = Inl ReferenceError"
    by (simp add: createBlockBuilding_def g blockZone_fields blockCity_cells blockCellOk_def
        Let_def)
  show ?thesis
    by (simp add: growCell_def z Zone_getType_def blockZone_fields grow create)
qed

lemma block_tick_throws:
  "simulateBuildingGrowth exampleStats initialWeather blockCity (sconst 0) = Inl ReferenceError"
proof -
  have d: "gridWidth blockCity = 2" "gridHeight blockCity = 2"
    by (simp_all add: blockCity_def)
  have o: "scanOrder 2 2 = [(0, 0), (1, 0), (0, 1), (1, 1)]"
    by (simp add: scanOrder_def upt_rec)
  show ?thesis
    unfolding simulateBuildingGrowth_def d o by (simp add: block_growth_throws)
qed

section \<open>Service buildings\<close>

lemma distance_bounds:
  assumes "calculateDistance x y nx ny \<le> real_of_int r"
  shows "\<bar>nx - x\<bar> \<le> r \<and> \<bar>ny - y\<bar> \<le> r"
proof -
  let ?a = "real_of_int (nx - x)" and ?b = "real_of_int (ny - y)"
  have d: "calculateDistance x y nx ny = sqrt (?a\<^sup>2 + ?b\<^sup>2)"
    by (simp add: calculateDistance_def)
  have "\<bar>?a\<bar> \<le> sqrt (?a\<^sup>2 + ?b\<^sup>2)" "\<bar>?b\<bar> \<le> sqrt (?a\<^sup>2 + ?b\<^sup>2)"
    by (rule real_sqrt_ge_abs1, rule real_sqrt_ge_abs2)
  then have "\<bar>?a\<bar> \<le> real_of_int r" "\<bar>?b\<bar> \<le> real_of_int r"
    using assms d by linarith+
  then show ?thesis by linarith
qed

lemma distance_self: "calculateDistance x y x y = 0"
  by (simp add: calculateDistance_def)
















section \<open>Infrastructure connectivity\<close>

lemma gridAt_rectangular:
  assumes "rectangular grid" "0 \<le> nx" "nx < width0 grid" "0 \<le> ny" "ny < int (length grid)"
  shows "gridAt grid nx ny = Some (grid ! nat ny ! nat nx)"
proof -
  have ly: "nat ny < length grid" using assms by simp
  then have "int (length (grid ! nat ny)) = width0 grid"
    using assms(1) by (simp add: rectangular_def list_all_length)
  then show ?thesis using assms ly by (simp add: gridAt_def)
qed

lemma someHasInfrastructure_all_defined:
  assumes "None \<notin> set cs"
  shows "someHasInfrastructure cs t = Some (\<exists>c. Some c \<in> set cs \<and> hasInfrastructure c t)"
  using assms
proof (induction cs)
  case Nil
  then show ?case by simp
next
  case (Cons a cs)
  then show ?case by (cases a) auto
qed

lemma set_getNeighbors:
  "c \<in> set (getNeighbors x y r grid) \<longleftrightarrow>
     (\<exists>dy\<in>{- r..r}. \<exists>dx\<in>{- r..r}. \<not> (dx = 0 \<and> dy = 0) \<and>
        0 \<le> x + dx \<and> x + dx < width0 grid \<and> 0 \<le> y + dy \<and> y + dy < int (length grid) \<and>
        calculateDistance x y (x + dx) (y + dy) \<le> real_of_int r \<and>
        c = gridAt grid (x + dx) (y + dy))"
  by (simp add: getNeighbors_def Let_def not_less not_le) blast

lemma getNeighbors_defined:
  assumes "rectangular grid"
  shows "None \<notin> set (getNeighbors x y r grid)"
  using assms by (auto simp add: set_getNeighbors gridAt_rectangular)

lemma neighbours_some:
  assumes rect: "rectangular grid"
  shows "someHasInfrastructure (getNeighbors x y r grid) t =
     Some (\<exists>nx ny. (nx, ny) \<noteq> (x, y) \<and> 0 \<le> nx \<and> nx < width0 grid \<and> 0 \<le> ny \<and>
        ny < int (length grid) \<and> calculateDistance x y nx ny \<le> real_of_int r \<and>
        hasInfrastructure (grid ! nat ny ! nat nx) t)"
proof -
  have "(\<exists>c. Some c \<in> set (getNeighbors x y r grid) \<and> hasInfrastructure c t) \<longleftrightarrow>
     (\<exists>nx ny. (nx, ny) \<noteq> (x, y) \<and> 0 \<le> nx \<and> nx < width0 grid \<and> 0 \<le> ny \<and>
        ny < int (length grid) \<and> calculateDistance x y nx ny \<le> real_of_int r \<and>
        hasInfrastructure (grid ! nat ny ! nat nx) t)" (is "?L \<longleftrightarrow> ?R")
  proof
    assume ?L
    then obtain c dx dy where c: "hasInfrastructure c t" "Some c = gridAt grid (x + dx) (y + dy)"
      and b: "\<not> (dx = 0 \<and> dy = 0)" "0 \<le> x + dx" "x + dx < width0 grid" "0 \<le> y + dy"
        "y + dy < int (length grid)" "calculateDistance x y (x + dx) (y + dy) \<le> real_of_int r"
      by (auto simp add: set_getNeighbors)
    have "gridAt grid (x + dx) (y + dy) = Some (grid ! nat (y + dy) ! nat (x + dx))"
      using rect b by (simp add: gridAt_rectangular)
    with c have "hasInfrastructure (grid ! nat (y + dy) ! nat (x + dx)) t" by simp
    moreover have "(x + dx, y + dy) \<noteq> (x, y)" using b(1) by simp
    ultimately show ?R using b by blast
  next
    assume ?R
    then obtain nx ny where n: "(nx, ny) \<noteq> (x, y)" "0 \<le> nx" "nx < width0 grid" "0 \<le> ny"
        "ny < int (length grid)" "calculateDistance x y nx ny \<le> real_of_int r"
        "hasInfrastructure (grid ! nat ny ! nat nx) t"
      by blast
    let ?dx = "nx - x" and ?dy = "ny - y"
    have bd: "\<bar>?dx\<bar> \<le> r \<and> \<bar>?dy\<bar> \<le> r" using n(6) by (rule distance_bounds)
    have g: "gridAt grid (x + ?dx) (y + ?dy) = Some (grid ! nat ny ! nat nx)"
      using rect n by (simp add: gridAt_rectangular)
    have "Some (grid ! nat ny ! nat nx) \<in> set (getNeighbors x y r grid)"
      unfolding set_getNeighbors
      apply (rule bexI[of _ ?dy], rule bexI[of _ ?dx])
      using bd n g by auto
    then show ?L using n(7) by blast
  qed
  then show ?thesis
    using someHasInfrastructure_all_defined [OF getNeighbors_defined [OF rect]] by simp
qed

lemma connectivity_generic:
  assumes rect: "rectangular grid"
    and b: "0 \<le> x" "x < width0 grid" "0 \<le> y" "y < int (length grid)"
    and r: "0 \<le> r"
  shows "(if hasInfrastructure (grid ! nat y ! nat x) t then Some True
          else someHasInfrastructure (getNeighbors x y r grid) t) =
         Some (flagWithinRadius grid x y r t)"
proof -
  have own: "calculateDistance x y x y \<le> real_of_int r"
    using r by (simp add: distance_self)
  have "(hasInfrastructure (grid ! nat y ! nat x) t \<or>
      (\<exists>nx ny. (nx, ny) \<noteq> (x, y) \<and> 0 \<le> nx \<and> nx < width0 grid \<and> 0 \<le> ny \<and>
        ny < int (length grid) \<and> calculateDistance x y nx ny \<le> real_of_int r \<and>
        hasInfrastructure (grid ! nat ny ! nat nx) t)) = flagWithinRadius grid x y r t"
    unfolding flagWithinRadius_def using own b by (metis prod.inject)
  then show ?thesis
    unfolding neighbours_some [OF rect] by auto
qed

lemma connectivity_entry:
  assumes rect: "rectangular grid"
    and b: "0 \<le> x" "x < width0 grid" "0 \<le> y" "y < int (length grid)"
  shows "(if x < 0 then Some False
      else case grid of
        [] \<Rightarrow> None
      | row0 # _ \<Rightarrow>
          if x \<ge> int (length row0) \<or> y < 0 \<or> y \<ge> int (length grid) then Some False
          else (case gridAt grid x y of None \<Rightarrow> None | Some cell \<Rightarrow> f cell)) =
     f (grid ! nat y ! nat x)"
proof -
  obtain row0 rest where g: "grid = row0 # rest"
    using rect by (cases grid) (auto simp add: rectangular_def)
  have w: "width0 grid = int (length row0)"
    by (simp add: g width0_def)
  show ?thesis
    using b w gridAt_rectangular [OF rect b] by (simp add: g)
qed

text \<open>
  C8. On a rectangular grid, for every in-bounds cell and each infrastructure type, the
  connectivity check returns true if and only if the cell itself or some cell of the grid
  within the Euclidean detection radius (road 1, power 8, water 6) carries the flag.
\<close>

theorem connectivity_within_radius:
  assumes "rectangular grid" and "0 \<le> x" and "x < width0 grid"
    and "0 \<le> y" and "y < int (length grid)"
  shows "hasRoadConnectivity x y grid = Some (flagWithinRadius grid x y 1 InfraRoad) \<and>
         hasPowerConnectivity x y grid = Some (flagWithinRadius grid x y 8 InfraPower) \<and>
         hasWaterConnectivity x y grid = Some (flagWithinRadius grid x y 6 InfraWater)"
  unfolding hasRoadConnectivity_def hasPowerConnectivity_def hasWaterConnectivity_def
    ROAD_CONNECTION_RANGE_def POWER_CONNECTION_RANGE_def WATER_CONNECTION_RANGE_def
  by (simp only: connectivity_entry [OF assms] connectivity_generic [OF assms])

theorem connectivity_within_radius_witness:
  "rectangular roadRow \<and> (0::int) < width0 roadRow \<and> (0::int) < int (length roadRow) \<and>
   hasRoadConnectivity 0 0 roadRow = Some True \<and>
   flagWithinRadius roadRow 0 0 1 InfraRoad \<and>
   hasPowerConnectivity 0 0 roadRow = Some False \<and>
   \<not> flagWithinRadius roadRow 0 0 8 InfraPower \<and>
   hasWaterConnectivity 0 0 roadRow = Some (flagWithinRadius roadRow 0 0 6 InfraWater)"
proof -
  have r: "rectangular roadRow"
    by (simp add: rectangular_def roadRow_def width0_def)
  have b: "(0::int) < width0 roadRow" "(0::int) < int (length roadRow)"
    by (simp_all add: roadRow_def width0_def)
  have road: "hasRoadConnectivity 0 0 roadRow = Some True"
    by (simp add: hasRoadConnectivity_def roadRow_def ROAD_CONNECTION_RANGE_def gridAt_def
        cellWith_def toGridCell_def Zone_new_def hasInfrastructure_def getNeighbors_def
        width0_def calculateDistance_def upto.simps Let_def)
  have pow: "hasPowerConnectivity 0 0 roadRow = Some False"
    by (simp add: hasPowerConnectivity_def roadRow_def POWER_CONNECTION_RANGE_def gridAt_def
        cellWith_def toGridCell_def Zone_new_def hasInfrastructure_def getNeighbors_def
        width0_def calculateDistance_def upto.simps Let_def)
  show ?thesis
    using connectivity_within_radius [OF r _ b(1) _ b(2)] r b road pow by simp
qed

section \<open>Power distribution\<close>





















lemma makeConnection_ends:
  "pc_from (makeConnection s c) = n_id s" "pc_to (makeConnection s c) = n_id c"
  by (simp_all add: makeConnection_def Let_def)








lemmas power_eval_defs = calculatePowerDistribution_def buildPowerNodes_def nodesOfCell_def
  buildPowerConnections_def connectConsumer_def findNearestPowerSource_def canTransmitPower_def
  hasPowerLinePath_def simulatePowerFlow_def flowStep_def resetNode_def sourceCapacity_def
  consumerDemand_def isPowerSource_def isPowerConsumer_def getPowerSourceCapacity_def
  getBuildingPowerDemand_def Building_isServiceBuilding_def makeConnection_def
  POWER_TRANSMISSION_RANGE_def POWER_LINE_EFFICIENCY_def BASE_POWER_DEMAND_def
  POWERPLANT_CAPACITY_def Math_round_def width0_def gridAt_def hasInfrastructure_def
  calculateDistance_def

lemmas power_grid_defs = plantAndHouse_def cellWith_def toGridCell_def Zone_new_def
  powerPlant_def houseAt_def hospitalAt_def Building_new_def enumerate_eq_zip

lemma plantAndHouse_snapshot:
  "map_option (\<lambda>pg. (totalCapacity pg, totalDemand pg, efficiency pg))
     (calculatePowerDistribution plantAndHouse) = Some (990, 10, 1 / 99)"
  by (simp add: power_eval_defs power_grid_defs Let_def upto.simps)

lemma plantAndHouse_nodes:
  "sourceCapacity (buildPowerNodes plantAndHouse) = 1000 \<and>
   consumerDemand (buildPowerNodes plantAndHouse) = 10 \<and>
   allottedDemand (buildPowerNodes plantAndHouse) = 0"
  by (simp add: power_eval_defs power_grid_defs allottedDemand_def)




lemma nodesOfCell_plant: "nodesOfCell x y (cellWith a b i (Some powerPlant)) = [srcNode (int x) (int y) 1000]"
  by (simp add: nodesOfCell_def cellWith_def toGridCell_def powerPlant_def Building_new_def isPowerSource_def
     isPowerConsumer_def getPowerSourceCapacity_def POWERPLANT_CAPACITY_def srcNode_def)

lemma nodesOfCell_hospital: "nodesOfCell x y (cellWith a b i (Some (hospitalAt c d))) = [conNode (int x) (int y) 80 False None]"
  by (simp add: nodesOfCell_def cellWith_def toGridCell_def hospitalAt_def Building_new_def isPowerSource_def
     isPowerConsumer_def getBuildingPowerDemand_def Building_isServiceBuilding_def BASE_POWER_DEMAND_def conNode_def)

lemma hospitalRow_nodes: "buildPowerNodes hospitalRow =
   map (\<lambda>x. conNode x 0 80 False None) [0..6] @ [srcNode 7 0 1000] @ map (\<lambda>x. conNode x 0 80 False None) [8..13]"
  by (simp add: buildPowerNodes_def hospitalRow_def enumerate_eq_zip upto.simps upt_rec nodesOfCell_plant nodesOfCell_hospital)


lemma calculateDistance_le:
  "0 \<le> r \<Longrightarrow> calculateDistance x1 y1 x2 y2 \<le> r \<longleftrightarrow> real_of_int ((x2 - x1)\<^sup>2 + (y2 - y1)\<^sup>2) \<le> r\<^sup>2"
  unfolding calculateDistance_def
  by (metis abs_of_nonneg real_sqrt_abs real_sqrt_le_iff)

lemma pathLoop_all_power:
  assumes "\<And>x y. 0 \<le> x \<Longrightarrow> x < width0 grid \<Longrightarrow> 0 \<le> y \<Longrightarrow> y < int (length grid) \<Longrightarrow>
     (\<exists>c. gridAt grid x y = Some c \<and> hasInfrastructure c InfraPower)"
  shows "pathLoop sx sy dx dy steps grid is = Some True"
proof (induction "is")
  case Nil
  then show ?case by simp
next
  case (Cons i "is")
  then show ?case
    using assms by (fastforce simp add: Let_def)
qed

lemma hasPowerLinePath_all_power:
  assumes "\<And>x y. 0 \<le> x \<Longrightarrow> x < width0 grid \<Longrightarrow> 0 \<le> y \<Longrightarrow> y < int (length grid) \<Longrightarrow>
     (\<exists>c. gridAt grid x y = Some c \<and> hasInfrastructure c InfraPower)"
  shows "hasPowerLinePath sx sy ex ey grid = Some True"
  using pathLoop_all_power [of grid, OF assms]
  by (simp add: hasPowerLinePath_def Let_def)

lemma hospitalRow_power:
  assumes "0 \<le> x" "x < width0 hospitalRow" "0 \<le> y" "y < int (length hospitalRow)"
  shows "\<exists>c. gridAt hospitalRow x y = Some c \<and> hasInfrastructure c InfraPower"
  using assms
  by (simp add: hospitalRow_def width0_def gridAt_def hasInfrastructure_def cellWith_def toGridCell_def)

lemma hospitalRow_transmit: "canTransmitPower a b hospitalRow = Some True"
  unfolding canTransmitPower_def
  by (rule hasPowerLinePath_all_power) (rule hospitalRow_power)

lemma hospitalRow_nearest: "0 \<le> x \<Longrightarrow> x \<le> 13 \<Longrightarrow>
   findNearestPowerSource (conNode x 0 d c s) [srcNode 7 0 1000] = Some (srcNode 7 0 1000)"
proof -
  assume "0 \<le> x" "x \<le> 13"
  then have "\<bar>7 - x\<bar> \<le> \<bar>8::int\<bar>" by simp
  then have "(7 - x)\<^sup>2 \<le> 8\<^sup>2" by (simp only: abs_le_square_iff)
  then have "(7 - x)\<^sup>2 \<le> 64" by simp
  then have "real_of_int ((7 - x)\<^sup>2) \<le> real_of_int 64" by (simp only: of_int_le_iff)
  then have "real_of_int ((7 - x)\<^sup>2 + (0 - 0)\<^sup>2) \<le> 8\<^sup>2" by simp
  then show ?thesis
    by (simp add: findNearestPowerSource_def Let_def POWER_TRANSMISSION_RANGE_def calculateDistance_le
        conNode_def srcNode_def)
qed

lemma hospitalRow_connect: "0 \<le> x \<Longrightarrow> x \<le> 13 \<Longrightarrow>
   connectConsumer [srcNode 7 0 1000] hospitalRow (conNode x 0 80 False None) =
     Some (conNode x 0 80 True (Some (PowerSourceId 7 0)),
           [makeConnection (srcNode 7 0 1000) (conNode x 0 80 False None)])"
  by (simp add: connectConsumer_def hospitalRow_nearest hospitalRow_transmit) (simp add: conNode_def srcNode_def)

lemma type_simps: "n_type (conNode x y d c s) = Consumer" "n_type (srcNode x y k) = Source"
  by (simp_all add: conNode_def srcNode_def)

lemma hospitalRow_connections: "buildPowerConnections (buildPowerNodes hospitalRow) hospitalRow = 
   Some (map (\<lambda>x. makeConnection (srcNode 7 0 1000) (conNode x 0 80 False None)) ([0..6] @ [8..13]),
     map (\<lambda>x. conNode x 0 80 True (Some (PowerSourceId 7 0))) [0..6] @ [srcNode 7 0 1000] @ map (\<lambda>x. conNode x 0 80 True (Some (PowerSourceId 7 0))) [8..13])"
  by (simp add: hospitalRow_nodes buildPowerConnections_def upto.simps type_simps hospitalRow_connect)




lemma hospitalRow_flow: "simulatePowerFlow 
   (map (\<lambda>x. conNode x 0 80 True (Some (PowerSourceId 7 0))) [0..6] @ [srcNode 7 0 1000] @ map (\<lambda>x. conNode x 0 80 True (Some (PowerSourceId 7 0))) [8..13])
   (map (\<lambda>x. makeConnection (srcNode 7 0 1000) (conNode x 0 80 False None)) ([0..6] @ [8..13]))
    = hospitalRowFinal"
  by (simp add: simulatePowerFlow_def flowStep_def Let_def resetNode_def hospitalRowFinal_def
     makeConnection_ends srcNode_def conNode_def upto.simps)

lemma hospitalRow_sums: "sourceCapacity hospitalRowFinal = 0" "consumerDemand hospitalRowFinal = 1000"
  by (simp_all add: hospitalRowFinal_def sourceCapacity_def consumerDemand_def srcNode_def conNode_def upto.simps)

lemma hospitalRow_snapshot: "map_option (\<lambda>pg. (totalCapacity pg, totalDemand pg, efficiency pg, isPowerGridOverloaded pg))
  (calculatePowerDistribution hospitalRow) = Some (0, 1000, 0, False)"
  apply (simp only: calculatePowerDistribution_def hospitalRow_connections Let_def option.case prod.case hospitalRow_flow hospitalRow_sums)
  apply (simp add: isPowerGridOverloaded_def POWER_OVERLOAD_THRESHOLD_def)
  done

lemma hospitalRow_original:
  "sourceCapacity (buildPowerNodes hospitalRow) = 1000 \<and>
   consumerDemand (buildPowerNodes hospitalRow) = 1040"
  by (simp add: hospitalRow_nodes sourceCapacity_def consumerDemand_def srcNode_def conNode_def
      upto.simps)

text \<open>
  C1. The snapshot is meant to report the sum of the source capacities, the sum of the
  consumer demands and efficiency = min(1, demand/capacity), with the overload flag set
  when efficiency exceeds 0.9. For one plant (capacity 1000) and one house (demand 10) on
  power-line cells the snapshot reports capacity 990 and efficiency 1/99. For one plant and
  thirteen reachable large hospitals (demand 80 each, 1040 in all, more than the capacity)
  it reports capacity 0, demand 1000, efficiency 0 and no overload, where the spec's rule
  gives efficiency min(1, 1040/1000) = 1 and an overload.
\<close>

theorem power_snapshot_after_flow:
  "sourceCapacity (buildPowerNodes plantAndHouse) = 1000 \<and>
   consumerDemand (buildPowerNodes plantAndHouse) = 10 \<and>
   map_option (\<lambda>pg. (totalCapacity pg, totalDemand pg, efficiency pg))
     (calculatePowerDistribution plantAndHouse) = Some (990, 10, 1 / 99) \<and>
   sourceCapacity (buildPowerNodes hospitalRow) = 1000 \<and>
   consumerDemand (buildPowerNodes hospitalRow) = 1040 \<and>
   map_option (\<lambda>pg. (totalCapacity pg, totalDemand pg, efficiency pg, isPowerGridOverloaded pg))
     (calculatePowerDistribution hospitalRow) = Some (0, 1000, 0, False) \<and>
   min 1 (1040 / 1000 :: real) > POWER_OVERLOAD_THRESHOLD"
  using plantAndHouse_snapshot plantAndHouse_nodes hospitalRow_original hospitalRow_snapshot
  by (simp add: POWER_OVERLOAD_THRESHOLD_def)

section \<open>The simulation tick\<close>





















































end
